theory Spec2Isabelle
  imports Main "HOL-Library.Char_ord"
begin

section \<open>The host runtime and the C library, as pg\_connlimit sees them\<close>

text \<open>
  pg\_connlimit is a PostgreSQL module written in C.  Its two revisions in the sources,
  \<^verbatim>\<open>src/pg_connlimit.c\<close> (raw \<^verbatim>\<open>open\<close>/\<^verbatim>\<open>read\<close>/\<^verbatim>\<open>strtol\<close>) and
  \<^verbatim>\<open>src/unnamed/part_000\<close> (\<^verbatim>\<open>AllocateFile\<close>/\<^verbatim>\<open>fscanf\<close>), define the same three
  functions.  The definitions taken from \<^verbatim>\<open>src/pg_connlimit.c\<close> keep the source's names;
  those taken from \<^verbatim>\<open>part_000\<close> carry the suffix \<open>_p0\<close>.

  A \<^verbatim>\<open>char *\<close> argument is the list of its characters before the terminating NUL.
\<close>

type_synonym Oid = nat

definition InvalidOid :: Oid where
  "InvalidOid = 0"

definition OidIsValid :: "Oid \<Rightarrow> bool" where
  "OidIsValid objectId = (objectId \<noteq> InvalidOid)"

definition STATUS_OK :: int where
  "STATUS_OK = 0"

text \<open>The values of \<^verbatim>\<open>errno\<close> the module meets (their Linux numbers; only their being
  distinct and non-zero matters).\<close>

definition ENOENT :: int where "ENOENT = 2"
definition EBADF :: int where "EBADF = 9"
definition EAGAIN :: int where "EAGAIN = 11"
definition EACCES :: int where "EACCES = 13"
definition EINVAL :: int where "EINVAL = 22"
definition ERANGE :: int where "ERANGE = 34"

text \<open>\<^verbatim>\<open>sizeof '\0'\<close>: a character constant has type \<^verbatim>\<open>int\<close> in C, four bytes on
  every platform PostgreSQL runs on.\<close>

definition sizeof_char_constant :: int where
  "sizeof_char_constant = 4"

record Port =
  user_name :: string

text \<open>The state of the backend process that the module changes: the process-wide
  \<^verbatim>\<open>errno\<close>, and (a ghost field) every path the module has built from a role name.\<close>

record proc =
  errno :: int
  paths :: "string list"

datatype sqlerrcode = ERRCODE_TOO_MANY_CONNECTIONS

text \<open>A call either returns, or ends the process through \<^verbatim>\<open>ereport(FATAL, ...)\<close> with
  an error code and a message.\<close>

datatype outcome = Return proc | Fatal sqlerrcode string proc

text \<open>What the kernel answers to one \<^verbatim>\<open>open(path, O_RDONLY)\<close>: a descriptor on a file
  with the given bytes, or \<open>-1\<close> with \<^verbatim>\<open>errno\<close> set.  A descriptor is the content
  behind it; \<open>None\<close> is the descriptor \<open>-1\<close>.\<close>

datatype open_answer = OpenFd string | OpenErr int

type_synonym descriptor = "string option"

text \<open>What the kernel answers to one \<^verbatim>\<open>read\<close> on a valid descriptor of a regular
  file: the bytes asked for (or those that remain), or \<open>-1\<close> with \<^verbatim>\<open>errno\<close> set.\<close>

datatype read_answer = ReadData | ReadErr int

text \<open>
  Everything outside the module that one admission check depends on:
  \<^item> \<open>connlimitDirectory\<close>: the module's global, \<open>None\<close> for \<^verbatim>\<open>NULL\<close>;
  \<^item> \<open>get_role_oid\<close> (called with \<^verbatim>\<open>missing_ok = true\<close>) and \<open>CountUserBackends\<close>:
    the host's catalog lookup and live-connection counter;
  \<^item> \<open>maxlen\<close>: the size \<^verbatim>\<open>initStringInfo\<close> allocates (1024 in PostgreSQL);
  \<^item> \<open>sys_open\<close>, \<open>sys_read\<close>: the kernel's answers to the successive \<^verbatim>\<open>open\<close> calls on
    a path and to the successive \<^verbatim>\<open>read\<close> calls;
  \<^item> \<open>LONG_MAX\<close> and \<open>strtol_einval\<close>: the C library's \<^verbatim>\<open>long\<close> and whether its
    \<^verbatim>\<open>strtol\<close> sets \<^verbatim>\<open>EINVAL\<close> when it converts nothing (ISO C and glibc: no; POSIX
    allows it);
  \<^item> \<open>AllocateFile\<close>: the host's answer to \<^verbatim>\<open>AllocateFile(path, "r")\<close>, used by
    \<^verbatim>\<open>part_000\<close>: a stream on a file with the given bytes, or \<^verbatim>\<open>NULL\<close> with
    \<^verbatim>\<open>errno\<close> set;
  \<^item> \<open>prev_ClientAuthentication_hook\<close>: the module's global holding the handler that
    was registered before it, \<open>None\<close> for \<^verbatim>\<open>NULL\<close>.
\<close>

record env =
  connlimitDirectory :: "string option"
  get_role_oid :: "string \<Rightarrow> Oid"
  CountUserBackends :: "Oid \<Rightarrow> int"
  maxlen :: nat
  sys_open :: "string \<Rightarrow> open_answer list"
  sys_read :: "read_answer list"
  LONG_MAX :: int
  strtol_einval :: bool
  AllocateFile :: "string \<Rightarrow> open_answer"
  prev_ClientAuthentication_hook :: "(Port \<Rightarrow> int \<Rightarrow> proc \<Rightarrow> outcome) option"

section \<open>The C library's integer parsing\<close>

definition isspace :: "char \<Rightarrow> bool" where
  "isspace c = (c \<in> set [CHR '' '', CHR 0x09, CHR 0x0A, CHR 0x0B, CHR 0x0C, CHR 0x0D])"

definition isdigit :: "char \<Rightarrow> bool" where
  "isdigit c = (c \<ge> CHR ''0'' \<and> c \<le> CHR ''9'')"

definition digit_val :: "char \<Rightarrow> int" where
  "digit_val c = int (of_char c) - 48"

definition digits_val :: "string \<Rightarrow> int" where
  "digits_val ds = foldl (\<lambda>acc c. 10 * acc + digit_val c) 0 ds"

text \<open>The bytes a NUL-terminated buffer holds as a C string.\<close>

definition cstring :: "string \<Rightarrow> string" where
  "cstring buf = takeWhile (\<lambda>c. c \<noteq> CHR 0x00) buf"

text \<open>The subject sequence of \<^verbatim>\<open>strtol(nptr, NULL, 10)\<close>: white space is skipped, then
  an optional sign, then the longest run of decimal digits.\<close>

definition after_space :: "string \<Rightarrow> string" where
  "after_space nptr = dropWhile isspace nptr"

definition negative :: "string \<Rightarrow> bool" where
  "negative nptr = (case after_space nptr of [] \<Rightarrow> False | c # cs \<Rightarrow> c = CHR ''-'')"

definition after_sign :: "string \<Rightarrow> string" where
  "after_sign nptr =
     (case after_space nptr of
        [] \<Rightarrow> []
      | c # cs \<Rightarrow> if c = CHR ''-'' then cs else if c = CHR ''+'' then cs else c # cs)"

definition leading_digits :: "string \<Rightarrow> string" where
  "leading_digits nptr = takeWhile isdigit (after_sign nptr)"

definition denoted :: "string \<Rightarrow> int" where
  "denoted nptr =
     (if negative nptr then - digits_val (leading_digits nptr)
      else digits_val (leading_digits nptr))"

text \<open>
  \<^verbatim>\<open>strtol(nptr, NULL, 10)\<close> after ISO C 7.22.1.4: with no digits nothing is converted
  and zero is returned (\<^verbatim>\<open>errno\<close> untouched, or \<^verbatim>\<open>EINVAL\<close> where the library does
  that); a value out of the range of \<^verbatim>\<open>long\<close> returns the nearest bound and sets
  \<^verbatim>\<open>ERANGE\<close>.  The result is the value and the process state.
\<close>

definition strtol :: "env \<Rightarrow> string \<Rightarrow> proc \<Rightarrow> int \<times> proc" where
  "strtol ev nptr p =
     (if leading_digits nptr = [] then
        (0, if strtol_einval ev then p\<lparr>errno := EINVAL\<rparr> else p)
      else if denoted nptr > LONG_MAX ev then (LONG_MAX ev, p\<lparr>errno := ERANGE\<rparr>)
      else if denoted nptr < - LONG_MAX ev - 1 then (- LONG_MAX ev - 1, p\<lparr>errno := ERANGE\<rparr>)
      else (denoted nptr, p))"

section \<open>\<^verbatim>\<open>src/pg_connlimit.c\<close>\<close>

subsection \<open>\<^verbatim>\<open>isalphanum\<close>\<close>

definition alnum :: "char \<Rightarrow> bool" where
  "alnum c = ((c \<ge> CHR ''0'' \<and> c \<le> CHR ''9'') \<or>
              (c \<ge> CHR ''A'' \<and> c \<le> CHR ''Z'') \<or>
              (c \<ge> CHR ''a'' \<and> c \<le> CHR ''z''))"

text \<open>The \<^verbatim>\<open>do ... while (c != '\0')\<close> loop: the end of the list is the terminator.\<close>

fun isalphanum_loop :: "string \<Rightarrow> bool" where
  "isalphanum_loop [] = True"
| "isalphanum_loop (c # str) = (if alnum c then isalphanum_loop str else False)"

definition isalphanum :: "string \<Rightarrow> bool" where
  "isalphanum str = (case str of [] \<Rightarrow> False | c # cs \<Rightarrow> isalphanum_loop (c # cs))"

subsection \<open>\<^verbatim>\<open>enforce_limit\<close>\<close>

text \<open>
  Lines 182-186: \<^verbatim>\<open>do { errno = 0; fd = open(...); } while (errno == EAGAIN);\<close>.
  The loop consumes the kernel's answers; \<open>None\<close> means it is still retrying when the
  answers end (a kernel that answers \<^verbatim>\<open>EAGAIN\<close> for ever never lets it return).
\<close>

fun open_loop :: "open_answer list \<Rightarrow> proc \<Rightarrow> (descriptor \<times> proc) option" where
  "open_loop [] p = None"
| "open_loop (OpenFd content # rest) p = Some (Some content, p\<lparr>errno := 0\<rparr>)"
| "open_loop (OpenErr e # rest) p =
     (if e = EAGAIN then open_loop rest (p\<lparr>errno := e\<rparr>) else Some (None, p\<lparr>errno := e\<rparr>))"

text \<open>
  Lines 199-208: the read loop on a valid descriptor.  \<open>buf\<close> is
  \<^verbatim>\<open>limitBuf.data[0 .. limitBuf.len)\<close>; the descriptor's offset is the number of bytes
  delivered so far, which is \<open>length buf\<close>.  A successful \<^verbatim>\<open>read\<close> leaves
  \<^verbatim>\<open>errno\<close> at the 0 stored before it, which ends the loop: at most one \<^verbatim>\<open>read\<close>
  delivers data.  (The count \<^verbatim>\<open>remaining - limitBuf.len\<close> is positive whenever
  \<open>maxlen\<close> exceeds 4.)
\<close>

fun read_retry ::
  "string \<Rightarrow> int \<Rightarrow> read_answer list \<Rightarrow> string \<Rightarrow> proc \<Rightarrow> (string \<times> proc) option" where
  "read_retry content remaining [] buf p = None"
| "read_retry content remaining (ReadData # rest) buf p =
     Some (buf @ take (nat (remaining - int (length buf))) (drop (length buf) content),
           p\<lparr>errno := 0\<rparr>)"
| "read_retry content remaining (ReadErr e # rest) buf p =
     (if e = EAGAIN \<and> int (length buf) < remaining
      then read_retry content remaining rest buf (p\<lparr>errno := e\<rparr>)
      else Some (buf, p\<lparr>errno := e\<rparr>))"

text \<open>On the descriptor \<open>-1\<close> the first \<^verbatim>\<open>read\<close> fails with \<^verbatim>\<open>EBADF\<close>.\<close>

definition read_loop ::
  "descriptor \<Rightarrow> int \<Rightarrow> read_answer list \<Rightarrow> proc \<Rightarrow> (string \<times> proc) option" where
  "read_loop fd remaining answers p =
     (case fd of
        None \<Rightarrow> Some ([], p\<lparr>errno := EBADF\<rparr>)
      | Some content \<Rightarrow> read_retry content remaining answers [] p)"

definition too_many :: "string \<Rightarrow> string" where
  "too_many rolname = ''too many connections for role '' @ [CHR 0x22] @ rolname @ [CHR 0x22]"

text \<open>Lines 219-247, entered with the bytes read and \<^verbatim>\<open>errno == 0\<close>: terminate the
  buffer, parse it, compare.\<close>

definition parse_and_decide ::
  "env \<Rightarrow> string \<Rightarrow> Oid \<Rightarrow> int \<Rightarrow> string \<Rightarrow> proc \<Rightarrow> outcome" where
  "parse_and_decide ev rolname roleid save_errno buf p =
     (case strtol ev (cstring buf) p of
        (limit, p') \<Rightarrow>
          if errno p' \<noteq> 0 then Return (p'\<lparr>errno := save_errno\<rparr>)
          else if CountUserBackends ev roleid \<ge> limit
          then Fatal ERRCODE_TOO_MANY_CONNECTIONS (too_many rolname) (p'\<lparr>errno := save_errno\<rparr>)
          else Return (p'\<lparr>errno := save_errno\<rparr>))"

text \<open>Lines 178-257, entered with the path built.\<close>

definition probe :: "env \<Rightarrow> string \<Rightarrow> Oid \<Rightarrow> string \<Rightarrow> proc \<Rightarrow> outcome option" where
  "probe ev rolname roleid pathBuf p =
     (let save_errno = errno p in
      case open_loop (sys_open ev pathBuf) p of
        None \<Rightarrow> None
      | Some (fd, p1) \<Rightarrow>
          if errno p1 \<noteq> 0 then Some (Return (p1\<lparr>errno := save_errno\<rparr>))
          else
            (case read_loop fd (int (maxlen ev) - sizeof_char_constant) (sys_read ev) p1 of
               None \<Rightarrow> None
             | Some (buf, p2) \<Rightarrow>
                 if errno p2 \<noteq> 0 \<or> length buf = maxlen ev
                 then Some (Return (p2\<lparr>errno := save_errno\<rparr>))
                 else Some (parse_and_decide ev rolname roleid save_errno buf p2)))"

definition enforce_limit :: "env \<Rightarrow> string \<Rightarrow> proc \<Rightarrow> outcome option" where
  "enforce_limit ev rolname p =
     (case connlimitDirectory ev of
        None \<Rightarrow> Some (Return p)
      | Some dir \<Rightarrow>
          if \<not> OidIsValid (get_role_oid ev rolname) then Some (Return p)
          else if \<not> isalphanum rolname then Some (Return p)
          else probe ev rolname (get_role_oid ev rolname) (dir @ ''/'' @ rolname)
                 (p\<lparr>paths := paths p @ [dir @ ''/'' @ rolname]\<rparr>))"

subsection \<open>\<^verbatim>\<open>client_auth_hook\<close>\<close>

text \<open>
  The hook's result is instrumented: beside the outcome it lists the invocations of the
  previously registered handler, each with the arguments it was given.  The handler
  cannot touch that list.  \<open>None\<close> is passed on from \<open>enforce_limit\<close>.
\<close>

type_synonym hook_run = "(Port \<times> int) list \<times> outcome"

definition client_auth_hook :: "env \<Rightarrow> Port \<Rightarrow> int \<Rightarrow> proc \<Rightarrow> hook_run option" where
  "client_auth_hook ev port status p =
     (case (if status = STATUS_OK then enforce_limit ev (user_name port) p
            else Some (Return p)) of
        None \<Rightarrow> None
      | Some (Fatal code msg p') \<Rightarrow> Some ([], Fatal code msg p')
      | Some (Return p') \<Rightarrow>
          (case prev_ClientAuthentication_hook ev of
             None \<Rightarrow> Some ([], Return p')
           | Some prev \<Rightarrow> Some ([(port, status)], prev port status p')))"

section \<open>\<^verbatim>\<open>src/unnamed/part_000\<close>\<close>

definition strspn :: "string \<Rightarrow> string \<Rightarrow> nat" where
  "strspn s accept = length (takeWhile (\<lambda>c. c \<in> set accept) s)"

definition strlen :: "string \<Rightarrow> nat" where
  "strlen s = length s"

definition INT_MAX :: int where
  "INT_MAX = 2147483647"

text \<open>
  What \<^verbatim>\<open>fscanf\<close> stores in the \<^verbatim>\<open>int\<close> for the number \<open>v\<close> that the digits
  denote: \<open>v\<close> itself when it fits.  When it does not, the C standard leaves the
  conversion undefined; glibc converts with \<^verbatim>\<open>strtol\<close> (clamping to the range of
  \<^verbatim>\<open>long\<close>) and stores the low 32 bits of that \<^verbatim>\<open>long\<close>, which is what is modelled.
\<close>

definition stored_int :: "env \<Rightarrow> int \<Rightarrow> int" where
  "stored_int ev v =
     (if - INT_MAX - 1 \<le> v \<and> v \<le> INT_MAX then v
      else
        (let l = (if v > LONG_MAX ev then LONG_MAX ev
                  else if v < - LONG_MAX ev - 1 then - LONG_MAX ev - 1
                  else v)
         in (l + 2147483648) mod 4294967296 - 2147483648))"

text \<open>
  \<^verbatim>\<open>fscanf(fp, "%d", &limit)\<close> on a fresh stream over the given bytes: white space is
  skipped, then an optional sign and decimal digits are matched.  \<open>None\<close> is every
  return value other than 1 (no digits: a matching failure, or an input failure at the
  end of the file); \<open>Some v\<close> is the return value 1 with \<open>v\<close> the value stored in
  \<^verbatim>\<open>limit\<close>.
\<close>

definition fscanf_d :: "env \<Rightarrow> string \<Rightarrow> int option" where
  "fscanf_d ev content =
     (if leading_digits content = [] then None
      else Some (stored_int ev (denoted content)))"

text \<open>
  \<open>enforce_limit\<close> of \<^verbatim>\<open>part_000\<close>.  It has no loop of its own: the result is always
  \<open>Some\<close>, and the type is kept in step with \<open>enforce_limit\<close> above.
\<close>

definition enforce_limit_p0 :: "env \<Rightarrow> string \<Rightarrow> proc \<Rightarrow> outcome option" where
  "enforce_limit_p0 ev rolname p =
     (case connlimitDirectory ev of
        None \<Rightarrow> Some (Return p)
      | Some dir \<Rightarrow>
          if \<not> OidIsValid (get_role_oid ev rolname) then Some (Return p)
          else if strspn rolname ''abcdefghijklmnopqrstuvwxyz0123456789_'' \<noteq> strlen rolname
          then Some (Return p)
          else
            (let p0 = p\<lparr>paths := paths p @ [dir @ ''/'' @ rolname]\<rparr>;
                 save_errno = errno p0;
                 p1 = p0\<lparr>errno := 0\<rparr>
             in case AllocateFile ev (dir @ ''/'' @ rolname) of
                  OpenErr e \<Rightarrow> Some (Return (p1\<lparr>errno := save_errno\<rparr>))
                | OpenFd content \<Rightarrow>
                    (case fscanf_d ev content of
                       None \<Rightarrow> Some (Return (p1\<lparr>errno := save_errno\<rparr>))
                     | Some limit \<Rightarrow>
                         if CountUserBackends ev (get_role_oid ev rolname) \<ge> limit
                         then Some (Fatal ERRCODE_TOO_MANY_CONNECTIONS (too_many rolname)
                                      (p1\<lparr>errno := save_errno\<rparr>))
                         else Some (Return (p1\<lparr>errno := save_errno\<rparr>)))))"

text \<open>\<open>client_auth_hook\<close> of \<^verbatim>\<open>part_000\<close>: the earlier handler runs first.\<close>

definition client_auth_hook_p0 :: "env \<Rightarrow> Port \<Rightarrow> int \<Rightarrow> proc \<Rightarrow> hook_run option" where
  "client_auth_hook_p0 ev port status p =
     (case prev_ClientAuthentication_hook ev of
        None \<Rightarrow>
          (if status = STATUS_OK
           then map_option (Pair []) (enforce_limit_p0 ev (user_name port) p)
           else Some ([], Return p))
      | Some prev \<Rightarrow>
          (case prev port status p of
             Fatal code msg p' \<Rightarrow> Some ([(port, status)], Fatal code msg p')
           | Return p' \<Rightarrow>
               (if status = STATUS_OK
                then map_option (Pair [(port, status)]) (enforce_limit_p0 ev (user_name port) p')
                else Some ([(port, status)], Return p'))))"

section \<open>A concrete installation\<close>

text \<open>
  An installation to run the module on: every role is known (oid 16384), \<open>live\<close>
  backends are connected for it, the limit file of the role \<^verbatim>\<open>arolename\<close> under
  \<open>dir\<close> holds \<open>content\<close> and no other file exists; the kernel answers \<^verbatim>\<open>EAGAIN\<close>
  once before each definite answer; the C library is glibc on a 64-bit platform; the
  handler registered earlier does nothing.
\<close>

definition installation :: "string \<Rightarrow> string \<Rightarrow> int \<Rightarrow> env" where
  "installation dir content live =
     \<lparr>connlimitDirectory = Some dir,
      get_role_oid = (\<lambda>rolname. 16384),
      CountUserBackends = (\<lambda>roleid. live),
      maxlen = 1024,
      sys_open = (\<lambda>path. if path = dir @ ''/arolename''
                         then [OpenErr EAGAIN, OpenFd content]
                         else [OpenErr EAGAIN, OpenErr ENOENT]),
      sys_read = [ReadErr EAGAIN, ReadData],
      LONG_MAX = 9223372036854775807,
      strtol_einval = False,
      AllocateFile = (\<lambda>path. if path = dir @ ''/arolename''
                             then OpenFd content else OpenErr ENOENT),
      prev_ClientAuthentication_hook = Some (\<lambda>port status p. Return p)\<rparr>"

definition start :: proc where
  "start = \<lparr>errno = 5, paths = []\<rparr>"

section \<open>The loops and the stages of \<open>enforce_limit\<close>\<close>

lemma open_loop_retry_fd:
  "open_loop (replicate k (OpenErr EAGAIN) @ OpenFd c # rest) p = Some (Some c, p\<lparr>errno := 0\<rparr>)"
  by (induction k arbitrary: p) simp_all

lemma open_loop_retry_err:
  "e \<noteq> EAGAIN \<Longrightarrow>
   open_loop (replicate k (OpenErr EAGAIN) @ OpenErr e # rest) p = Some (None, p\<lparr>errno := e\<rparr>)"
  by (induction k arbitrary: p) simp_all

lemma read_retry_data:
  "0 < remaining \<Longrightarrow>
   read_retry content remaining (replicate j (ReadErr EAGAIN) @ ReadData # rest) [] p =
     Some (take (nat remaining) content, p\<lparr>errno := 0\<rparr>)"
  by (induction j arbitrary: p) simp_all

text \<open>When the file opens and the read delivers, the bytes parsed are the first
  \<open>maxlen - 4\<close> bytes of the file, whatever its length.\<close>

lemma probe_reads:
  assumes "sys_open ev pathBuf = replicate k (OpenErr EAGAIN) @ OpenFd content # rest"
    and "sys_read ev = replicate j (ReadErr EAGAIN) @ ReadData # rest'"
    and "sizeof_char_constant < int (maxlen ev)"
  shows "probe ev rolname roleid pathBuf p =
           Some (parse_and_decide ev rolname roleid (errno p)
                   (take (maxlen ev - 4) content) (p\<lparr>errno := 0\<rparr>))"
proof -
  have remaining: "nat (int (maxlen ev) - sizeof_char_constant) = maxlen ev - 4"
    by (simp add: sizeof_char_constant_def)
  have room: "length (take (maxlen ev - 4) content) \<noteq> maxlen ev"
  proof -
    have "length (take (maxlen ev - 4) content) \<le> maxlen ev - 4"
      by simp
    moreover have "4 < maxlen ev"
      using assms(3) by (simp add: sizeof_char_constant_def)
    ultimately show ?thesis
      by arith
  qed
  have "read_loop (Some content) (int (maxlen ev) - sizeof_char_constant) (sys_read ev)
          (p\<lparr>errno := 0\<rparr>) = Some (take (maxlen ev - 4) content, p\<lparr>errno := 0\<rparr>)"
    using assms(2,3) by (simp add: read_loop_def read_retry_data remaining)
  then show ?thesis
    using assms(1) room by (simp add: probe_def open_loop_retry_fd Let_def)
qed

lemma enforce_limit_reads:
  assumes "connlimitDirectory ev = Some dir"
    and "OidIsValid (get_role_oid ev rolname)"
    and "isalphanum rolname"
    and "sys_open ev (dir @ ''/'' @ rolname) = replicate k (OpenErr EAGAIN) @ OpenFd content # rest"
    and "sys_read ev = replicate j (ReadErr EAGAIN) @ ReadData # rest'"
    and "sizeof_char_constant < int (maxlen ev)"
  shows "enforce_limit ev rolname p =
           Some (parse_and_decide ev rolname (get_role_oid ev rolname) (errno p)
                   (take (maxlen ev - 4) content)
                   (p\<lparr>paths := paths p @ [dir @ ''/'' @ rolname], errno := 0\<rparr>))"
  using assms(1-3) probe_reads[OF assms(4-6)]
  by (simp add: enforce_limit_def)

lemma parse_limit:
  assumes "leading_digits (cstring buf) \<noteq> []"
    and "- LONG_MAX ev - 1 \<le> denoted (cstring buf)"
    and "denoted (cstring buf) \<le> LONG_MAX ev"
    and "errno p = 0"
  shows "parse_and_decide ev rolname roleid save_errno buf p =
           (if CountUserBackends ev roleid \<ge> denoted (cstring buf)
            then Fatal ERRCODE_TOO_MANY_CONNECTIONS (too_many rolname) (p\<lparr>errno := save_errno\<rparr>)
            else Return (p\<lparr>errno := save_errno\<rparr>))"
  using assms by (simp add: parse_and_decide_def strtol_def)


lemma parse_no_digits:
  assumes "leading_digits (cstring buf) = []"
    and "errno p = 0"
  shows "parse_and_decide ev rolname roleid save_errno buf p =
           (if strtol_einval ev then Return (p\<lparr>errno := save_errno\<rparr>)
            else if CountUserBackends ev roleid \<ge> 0
            then Fatal ERRCODE_TOO_MANY_CONNECTIONS (too_many rolname) (p\<lparr>errno := save_errno\<rparr>)
            else Return (p\<lparr>errno := save_errno\<rparr>))"
  using assms by (simp add: parse_and_decide_def strtol_def EINVAL_def)

lemma alnum_iff:
  "alnum c = (c \<in> set ''ABCDEFGHIJKLMNOPQRSTUVWXYZabcdefghijklmnopqrstuvwxyz0123456789'')"
  by (cases c) (auto simp add: alnum_def less_eq_char_def)

lemma isalphanum_loop_iff: "isalphanum_loop str = (\<forall>c \<in> set str. alnum c)"
  by (induction str) simp_all

lemma isalphanum_iff: "isalphanum str = (str \<noteq> [] \<and> (\<forall>c \<in> set str. alnum c))"
  by (cases str) (simp_all add: isalphanum_def isalphanum_loop_iff)

lemma isalphanum_arolename: "isalphanum ''arolename''"
  by (simp add: isalphanum_def alnum_def)

lemma installation_opens:
  "sys_open (installation dir content live) (dir @ ''/'' @ ''arolename'') =
     replicate 1 (OpenErr EAGAIN) @ OpenFd content # []"
  by (simp add: installation_def)

lemma installation_reads:
  "sys_read (installation dir content live) = replicate 1 (ReadErr EAGAIN) @ ReadData # []"
  by (simp add: installation_def)

lemma installation_stages:
  "connlimitDirectory (installation dir content live) = Some dir"
  "OidIsValid (get_role_oid (installation dir content live) rolname)"
  "sizeof_char_constant < int (maxlen (installation dir content live))"
  "maxlen (installation dir content live) = 1024"
  "CountUserBackends (installation dir content live) roleid = live"
  "LONG_MAX (installation dir content live) = 9223372036854775807"
  "strtol_einval (installation dir content live) = False"
  by (simp_all add: installation_def OidIsValid_def InvalidOid_def sizeof_char_constant_def)

lemma parse_10:
  "leading_digits (cstring ''10'') = ''10''" "denoted (cstring ''10'') = 10"
  by (simp_all add: denoted_def leading_digits_def after_sign_def after_space_def negative_def
      isspace_def isdigit_def digits_val_def digit_val_def cstring_def)

section \<open>The identifier check\<close>

lemma strspn_full:
  "(strspn s accept = strlen s) = (\<forall>c \<in> set s. c \<in> set accept)"
  by (induction s) (simp_all add: strspn_def strlen_def)

text \<open>
  Claim C6, amended.  The claim has one validator over \<open>[A-Za-z0-9]\<close>; the two
  revisions check the name differently.  In \<^verbatim>\<open>src/pg_connlimit.c\<close>, \<open>isalphanum\<close>
  returns false exactly for the empty name and for names with a byte outside
  \<open>[A-Za-z0-9]\<close>.  In \<^verbatim>\<open>part_000\<close> the inline test
  \<^verbatim>\<open>strspn(rolname, "abcdefghijklmnopqrstuvwxyz0123456789_") != strlen(rolname)\<close>
  refuses a non-empty name exactly when it has a byte outside \<open>[a-z0-9_]\<close>.  In both,
  when the check refuses the name, \<open>enforce_limit\<close> returns with the process state as
  it found it: no path has been built (the ghost field \<open>paths\<close> is unchanged) and
  nothing has been opened.
\<close>

theorem name_checks:
  "(isalphanum name = False \<longleftrightarrow>
      (name = [] \<or>
       (\<exists>c \<in> set name.
          c \<notin> set ''ABCDEFGHIJKLMNOPQRSTUVWXYZabcdefghijklmnopqrstuvwxyz0123456789''))) \<and>
   (isalphanum name = False \<longrightarrow> enforce_limit ev name p = Some (Return p)) \<and>
   (name \<noteq> [] \<longrightarrow>
      (strspn name ''abcdefghijklmnopqrstuvwxyz0123456789_'' \<noteq> strlen name \<longleftrightarrow>
         (\<exists>c \<in> set name. c \<notin> set ''abcdefghijklmnopqrstuvwxyz0123456789_''))) \<and>
   (strspn name ''abcdefghijklmnopqrstuvwxyz0123456789_'' \<noteq> strlen name \<longrightarrow>
      enforce_limit_p0 ev name p = Some (Return p))"
proof (intro conjI)
  show "isalphanum name = False \<longleftrightarrow>
      (name = [] \<or>
       (\<exists>c \<in> set name.
          c \<notin> set ''ABCDEFGHIJKLMNOPQRSTUVWXYZabcdefghijklmnopqrstuvwxyz0123456789''))"
    unfolding isalphanum_iff alnum_iff by blast
next
  show "isalphanum name = False \<longrightarrow> enforce_limit ev name p = Some (Return p)"
    by (simp add: enforce_limit_def split: option.split)
next
  show "name \<noteq> [] \<longrightarrow>
      (strspn name ''abcdefghijklmnopqrstuvwxyz0123456789_'' \<noteq> strlen name \<longleftrightarrow>
         (\<exists>c \<in> set name. c \<notin> set ''abcdefghijklmnopqrstuvwxyz0123456789_''))"
    unfolding strspn_full by blast
next
  show "strspn name ''abcdefghijklmnopqrstuvwxyz0123456789_'' \<noteq> strlen name \<longrightarrow>
      enforce_limit_p0 ev name p = Some (Return p)"
    by (simp add: enforce_limit_p0_def split: option.split)
qed

theorem name_checks_witness:
  "isalphanum ''../etc/passwd'' = False \<and>
   OidIsValid (get_role_oid (installation ''/etc/connlimit'' ''0'' 0) ''../etc/passwd'') \<and>
   enforce_limit (installation ''/etc/connlimit'' ''0'' 0) ''../etc/passwd'' start
     = Some (Return start) \<and>
   strspn ''../etc/passwd'' ''abcdefghijklmnopqrstuvwxyz0123456789_'' \<noteq> strlen ''../etc/passwd'' \<and>
   enforce_limit_p0 (installation ''/etc/connlimit'' ''0'' 0) ''../etc/passwd'' start
     = Some (Return start) \<and>
   isalphanum [] = False \<and> isalphanum ''role_1'' = False \<and> isalphanum ''Role1''"
proof -
  have bad: "isalphanum ''../etc/passwd'' = False"
    by (simp add: isalphanum_def alnum_def)
  have bad0: "strspn ''../etc/passwd'' ''abcdefghijklmnopqrstuvwxyz0123456789_''
      \<noteq> strlen ''../etc/passwd''"
    by (simp add: strspn_def strlen_def)
  have "enforce_limit (installation ''/etc/connlimit'' ''0'' 0) ''../etc/passwd'' start
          = Some (Return start) \<and>
        enforce_limit_p0 (installation ''/etc/connlimit'' ''0'' 0) ''../etc/passwd'' start
          = Some (Return start)"
    using name_checks[of "''../etc/passwd''"
        "installation ''/etc/connlimit'' ''0'' 0" start] bad bad0
    by blast
  then show ?thesis
    using bad0
    by (simp add: isalphanum_def alnum_def installation_def OidIsValid_def InvalidOid_def)
qed

text \<open>The claim as stated fails on \<^verbatim>\<open>part_000\<close>: \<^verbatim>\<open>role_1\<close> has a byte outside
  \<open>[A-Za-z0-9]\<close>, yet it passes the test and the path \<^verbatim>\<open>/etc/connlimit/role_1\<close> is
  built from it; \<^verbatim>\<open>Role1\<close> has none, yet it is refused.\<close>

theorem part_000_check_differs:
  "CHR ''_'' \<in> set ''role_1'' \<and>
   CHR ''_'' \<notin> set ''ABCDEFGHIJKLMNOPQRSTUVWXYZabcdefghijklmnopqrstuvwxyz0123456789'' \<and>
   strspn ''role_1'' ''abcdefghijklmnopqrstuvwxyz0123456789_'' = strlen ''role_1'' \<and>
   enforce_limit_p0 (installation ''/etc/connlimit'' ''0'' 0) ''role_1'' start
     = Some (Return (start\<lparr>paths := [''/etc/connlimit/role_1'']\<rparr>)) \<and>
   isalphanum ''Role1'' \<and>
   strspn ''Role1'' ''abcdefghijklmnopqrstuvwxyz0123456789_'' \<noteq> strlen ''Role1'' \<and>
   enforce_limit_p0 (installation ''/etc/connlimit'' ''0'' 0) ''Role1'' start
     = Some (Return start)"
  by (simp add: enforce_limit_p0_def installation_def OidIsValid_def InvalidOid_def
      strspn_def strlen_def start_def isalphanum_def alnum_def)

section \<open>The ambient \<^verbatim>\<open>errno\<close>\<close>

text \<open>
  Claim C9.  Whenever \<open>enforce_limit\<close> returns (it does not reject), \<^verbatim>\<open>errno\<close> has the
  value it had when the check began: on the three early returns nothing has touched it,
  and every later path ends in \<^verbatim>\<open>errno = save_errno\<close>.  The witness is a run whose
  \<^verbatim>\<open>open\<close> sets \<^verbatim>\<open>EAGAIN\<close> and then \<^verbatim>\<open>ENOENT\<close> and that still returns with the 5 it
  started with.
\<close>

theorem errno_restored:
  "enforce_limit ev rolname p = Some (Return q) \<Longrightarrow> errno q = errno p"
  by (auto simp add: enforce_limit_def probe_def parse_and_decide_def Let_def
      split: option.splits if_splits prod.splits)

theorem errno_restored_witness:
  "\<exists>q. enforce_limit (installation ''/etc/connlimit'' ''10'' 9) ''nofile'' start
          = Some (Return q) \<and>
       errno q = 5 \<and> paths q = [''/etc/connlimit/nofile'']"
proof -
  have run: "enforce_limit (installation ''/etc/connlimit'' ''10'' 9) ''nofile'' start =
      Some (Return (start\<lparr>paths := [''/etc/connlimit/nofile'']\<rparr>))"
    by (simp add: enforce_limit_def probe_def installation_def start_def isalphanum_def
        alnum_def OidIsValid_def InvalidOid_def EAGAIN_def ENOENT_def)
  from errno_restored[OF run] run show ?thesis
    by (simp add: start_def)
qed

section \<open>Failing open\<close>

text \<open>
  Claim C7.  If the \<^verbatim>\<open>open\<close> of the limit file fails, after any number of \<^verbatim>\<open>EAGAIN\<close>
  retries, with whatever error \<open>e\<close> (\<^verbatim>\<open>ENOENT\<close>, \<^verbatim>\<open>EACCES\<close>, ...), then
  \<open>enforce_limit\<close> returns: the connection is admitted, nothing is reported, and
  \<^verbatim>\<open>errno\<close> is what it was.  The same holds in \<^verbatim>\<open>part_000\<close> when \<^verbatim>\<open>AllocateFile\<close>
  returns \<^verbatim>\<open>NULL\<close>.
\<close>

theorem open_failure_admits:
  assumes "connlimitDirectory ev = Some dir"
    and "sys_open ev (dir @ ''/'' @ rolname) = replicate k (OpenErr EAGAIN) @ OpenErr e # rest"
    and "e \<noteq> EAGAIN"
  shows "(\<exists>q. enforce_limit ev rolname p = Some (Return q) \<and> errno q = errno p) \<and>
         (AllocateFile ev (dir @ ''/'' @ rolname) = OpenErr e' \<longrightarrow>
            (\<exists>q. enforce_limit_p0 ev rolname p = Some (Return q) \<and> errno q = errno p))"
proof
  show "\<exists>q. enforce_limit ev rolname p = Some (Return q) \<and> errno q = errno p"
    using assms
    by (simp add: enforce_limit_def probe_def open_loop_retry_err read_loop_def EBADF_def
        Let_def)
next
  show "AllocateFile ev (dir @ ''/'' @ rolname) = OpenErr e' \<longrightarrow>
            (\<exists>q. enforce_limit_p0 ev rolname p = Some (Return q) \<and> errno q = errno p)"
    using assms(1) by (simp add: enforce_limit_p0_def)
qed

theorem open_failure_admits_witness:
  "(\<exists>q. enforce_limit (installation ''/etc/connlimit'' ''0'' 7) ''nofile'' start
           = Some (Return q) \<and> errno q = errno start) \<and>
   (\<exists>q. enforce_limit_p0 (installation ''/etc/connlimit'' ''0'' 7) ''nofile'' start
           = Some (Return q) \<and> errno q = errno start)"
  using open_failure_admits[where ev = "installation ''/etc/connlimit'' ''0'' 7"
      and dir = "''/etc/connlimit''" and rolname = "''nofile''" and k = 1 and e = ENOENT
      and rest = "[]" and e' = ENOENT and p = start]
  by (simp add: installation_def ENOENT_def EAGAIN_def)

section \<open>The comparison with the live count\<close>

text \<open>
  Claim C4.  When the directory is configured, the role is known and its name valid,
  the file opens and is read, and the bytes read start (after white space and a sign)
  with digits denoting a number in the range of \<^verbatim>\<open>long\<close>, then \<open>enforce_limit\<close>
  ends the process with \<^verbatim>\<open>ERRCODE_TOO_MANY_CONNECTIONS\<close> if and only if the live count
  is at least that number, and returns if and only if the live count is below it.  The
  witness runs the limit 10 against the live counts 9 (admitted) and 10 (rejected).
\<close>

theorem limit_comparison:
  assumes "connlimitDirectory ev = Some dir"
    and "OidIsValid (get_role_oid ev rolname)"
    and "isalphanum rolname"
    and "sys_open ev (dir @ ''/'' @ rolname) = replicate k (OpenErr EAGAIN) @ OpenFd content # rest"
    and "sys_read ev = replicate j (ReadErr EAGAIN) @ ReadData # rest'"
    and "sizeof_char_constant < int (maxlen ev)"
    and "leading_digits (cstring (take (maxlen ev - 4) content)) \<noteq> []"
    and "- LONG_MAX ev - 1 \<le> denoted (cstring (take (maxlen ev - 4) content))"
    and "denoted (cstring (take (maxlen ev - 4) content)) \<le> LONG_MAX ev"
  shows "(enforce_limit ev rolname p =
            Some (Fatal ERRCODE_TOO_MANY_CONNECTIONS (too_many rolname)
                    (p\<lparr>paths := paths p @ [dir @ ''/'' @ rolname]\<rparr>))
          \<longleftrightarrow> CountUserBackends ev (get_role_oid ev rolname)
                \<ge> denoted (cstring (take (maxlen ev - 4) content))) \<and>
         (enforce_limit ev rolname p =
            Some (Return (p\<lparr>paths := paths p @ [dir @ ''/'' @ rolname]\<rparr>))
          \<longleftrightarrow> CountUserBackends ev (get_role_oid ev rolname)
                < denoted (cstring (take (maxlen ev - 4) content))) \<and>
         (\<exists>out. enforce_limit ev rolname p = Some out)"
  using assms(7-9)
  by (simp add: enforce_limit_reads[OF assms(1-6)] parse_limit)

theorem limit_comparison_witness:
  "enforce_limit (installation ''/etc/connlimit'' ''10'' 9) ''arolename'' start =
     Some (Return (start\<lparr>paths := [''/etc/connlimit/arolename'']\<rparr>)) \<and>
   enforce_limit (installation ''/etc/connlimit'' ''10'' 10) ''arolename'' start =
     Some (Fatal ERRCODE_TOO_MANY_CONNECTIONS (too_many ''arolename'')
             (start\<lparr>paths := [''/etc/connlimit/arolename'']\<rparr>))"
  using limit_comparison[where ev = "installation ''/etc/connlimit'' ''10'' 9"
      and dir = "''/etc/connlimit''" and rolname = "''arolename''" and k = 1 and j = 1
      and content = "''10''" and rest = "[]" and rest' = "[]" and p = start,
      OF installation_stages(1) installation_stages(2) isalphanum_arolename
         installation_opens installation_reads installation_stages(3)]
    limit_comparison[where ev = "installation ''/etc/connlimit'' ''10'' 10"
      and dir = "''/etc/connlimit''" and rolname = "''arolename''" and k = 1 and j = 1
      and content = "''10''" and rest = "[]" and rest' = "[]" and p = start,
      OF installation_stages(1) installation_stages(2) isalphanum_arolename
         installation_opens installation_reads installation_stages(3)]
  by (simp add: installation_stages parse_10 start_def)

lemma installation_run:
  "enforce_limit (installation dir content live) ''arolename'' p =
     Some (parse_and_decide (installation dir content live) ''arolename'' 16384 (errno p)
             (take 1020 content) (p\<lparr>paths := paths p @ [dir @ ''/arolename''], errno := 0\<rparr>))"
  using enforce_limit_reads[where ev = "installation dir content live" and dir = dir
      and rolname = "''arolename''" and k = 1 and j = 1 and content = content
      and rest = "[]" and rest' = "[]" and p = p,
      OF installation_stages(1) installation_stages(2) isalphanum_arolename
         installation_opens installation_reads installation_stages(3)]
  by (simp add: installation_def)

lemmas parse_defs = denoted_def leading_digits_def after_sign_def after_space_def negative_def
      isspace_def isdigit_def digits_val_def digit_val_def cstring_def

section \<open>Overflow\<close>









section \<open>Limits of zero and below\<close>

text \<open>
  Claim C10.  For a known role with a valid name whose limit file parses to a number
  that is zero or negative, \<open>enforce_limit\<close> ends the process with
  \<^verbatim>\<open>ERRCODE_TOO_MANY_CONNECTIONS\<close> at every live count (a count is never negative).
  The same holds for \<open>enforce_limit\<close> of \<^verbatim>\<open>part_000\<close>.
\<close>

theorem nonpositive_limit_rejects:
  assumes "connlimitDirectory ev = Some dir"
    and "OidIsValid (get_role_oid ev rolname)"
    and "isalphanum rolname"
    and "sys_open ev (dir @ ''/'' @ rolname) = replicate k (OpenErr EAGAIN) @ OpenFd content # rest"
    and "sys_read ev = replicate j (ReadErr EAGAIN) @ ReadData # rest'"
    and "sizeof_char_constant < int (maxlen ev)"
    and "leading_digits (cstring (take (maxlen ev - 4) content)) \<noteq> []"
    and "- LONG_MAX ev - 1 \<le> denoted (cstring (take (maxlen ev - 4) content))"
    and "denoted (cstring (take (maxlen ev - 4) content)) \<le> 0"
    and "0 \<le> LONG_MAX ev"
    and "0 \<le> CountUserBackends ev (get_role_oid ev rolname)"
  shows "enforce_limit ev rolname p =
           Some (Fatal ERRCODE_TOO_MANY_CONNECTIONS (too_many rolname)
                   (p\<lparr>paths := paths p @ [dir @ ''/'' @ rolname]\<rparr>)) \<and>
         (strspn rolname ''abcdefghijklmnopqrstuvwxyz0123456789_'' = strlen rolname \<and>
          AllocateFile ev (dir @ ''/'' @ rolname) = OpenFd content' \<and>
          leading_digits content' \<noteq> [] \<and> - INT_MAX - 1 \<le> denoted content' \<and>
          denoted content' \<le> 0 \<longrightarrow>
          enforce_limit_p0 ev rolname p =
            Some (Fatal ERRCODE_TOO_MANY_CONNECTIONS (too_many rolname)
                    (p\<lparr>paths := paths p @ [dir @ ''/'' @ rolname]\<rparr>)))"
proof
  show "enforce_limit ev rolname p =
           Some (Fatal ERRCODE_TOO_MANY_CONNECTIONS (too_many rolname)
                   (p\<lparr>paths := paths p @ [dir @ ''/'' @ rolname]\<rparr>))"
    using assms(7-11)
    by (simp add: enforce_limit_reads[OF assms(1-6)] parse_limit)
next
  show "strspn rolname ''abcdefghijklmnopqrstuvwxyz0123456789_'' = strlen rolname \<and>
          AllocateFile ev (dir @ ''/'' @ rolname) = OpenFd content' \<and>
          leading_digits content' \<noteq> [] \<and> - INT_MAX - 1 \<le> denoted content' \<and>
          denoted content' \<le> 0 \<longrightarrow>
          enforce_limit_p0 ev rolname p =
            Some (Fatal ERRCODE_TOO_MANY_CONNECTIONS (too_many rolname)
                    (p\<lparr>paths := paths p @ [dir @ ''/'' @ rolname]\<rparr>))"
    using assms(1,2,11)
    by (simp add: enforce_limit_p0_def fscanf_d_def stored_int_def INT_MAX_def Let_def)
qed

lemma parse_minus_5:
  "leading_digits (cstring ''-5'') = ''5''"
  "denoted (cstring ''-5'') = - 5"
  "leading_digits ''-5'' = ''5''"
  "denoted ''-5'' = - 5"
  by (simp_all add: parse_defs)

theorem nonpositive_limit_rejects_witness:
  "enforce_limit (installation ''/etc/connlimit'' ''-5'' 0) ''arolename'' start =
     Some (Fatal ERRCODE_TOO_MANY_CONNECTIONS (too_many ''arolename'')
             (start\<lparr>paths := [''/etc/connlimit/arolename'']\<rparr>)) \<and>
   enforce_limit_p0 (installation ''/etc/connlimit'' ''-5'' 0) ''arolename'' start =
     Some (Fatal ERRCODE_TOO_MANY_CONNECTIONS (too_many ''arolename'')
             (start\<lparr>paths := [''/etc/connlimit/arolename'']\<rparr>))"
  using nonpositive_limit_rejects[where ev = "installation ''/etc/connlimit'' ''-5'' 0"
      and dir = "''/etc/connlimit''" and rolname = "''arolename''" and k = 1 and j = 1
      and content = "''-5''" and rest = "[]" and rest' = "[]" and p = start
      and content' = "''-5''",
      OF installation_stages(1) installation_stages(2) isalphanum_arolename
         installation_opens installation_reads installation_stages(3)]
  by (simp add: installation_stages parse_minus_5 start_def strspn_def strlen_def INT_MAX_def)
    (simp add: installation_def)

section \<open>The directory setting\<close>

text \<open>
  Claim C2, amended.  The claim has an unset or an empty \<^verbatim>\<open>connlimit.directory\<close>
  disable the check.  The code (both revisions) tests \<^verbatim>\<open>connlimitDirectory == NULL\<close>
  and nothing else.  So: when the directory is unset (\<^verbatim>\<open>NULL\<close>, the boot value
  \<^verbatim>\<open>_PG_init\<close> registers), \<open>enforce_limit\<close> returns at once for every role name and
  whatever the files hold, with the process state untouched; when it is set to the empty
  string, a known role with a valid name has the path \<^verbatim>\<open>/<rolname>\<close> built and
  probed like any other.
\<close>

theorem unset_directory_admits:
  "(connlimitDirectory ev = None \<longrightarrow>
      enforce_limit ev rolname p = Some (Return p) \<and>
      enforce_limit_p0 ev rolname p = Some (Return p)) \<and>
   (connlimitDirectory ev = Some [] \<and> OidIsValid (get_role_oid ev rolname) \<and>
    isalphanum rolname \<longrightarrow>
      enforce_limit ev rolname p =
        probe ev rolname (get_role_oid ev rolname) (''/'' @ rolname)
          (p\<lparr>paths := paths p @ [''/'' @ rolname]\<rparr>))"
  by (simp add: enforce_limit_def enforce_limit_p0_def)

theorem unset_directory_admits_witness:
  "enforce_limit ((installation ''/etc/connlimit'' ''0'' 7)\<lparr>connlimitDirectory := None\<rparr>)
     ''arolename'' start = Some (Return start) \<and>
   enforce_limit_p0 ((installation ''/etc/connlimit'' ''0'' 7)\<lparr>connlimitDirectory := None\<rparr>)
     ''arolename'' start = Some (Return start) \<and>
   enforce_limit (installation [] ''10'' 3) ''arolename'' start =
     probe (installation [] ''10'' 3) ''arolename'' 16384 ''/arolename''
       (start\<lparr>paths := [''/arolename'']\<rparr>)"
  using unset_directory_admits[of
      "(installation ''/etc/connlimit'' ''0'' 7)\<lparr>connlimitDirectory := None\<rparr>"
      "''arolename''" start]
    unset_directory_admits[of "installation [] ''10'' 3" "''arolename''" start]
  by (simp add: installation_stages isalphanum_arolename start_def)
    (simp add: installation_def)

text \<open>The claim as stated fails at the empty setting: with a file \<^verbatim>\<open>/arolename\<close>
  holding \<^verbatim>\<open>0\<close> the limit is read and enforced, and the connection is rejected.\<close>

lemma parse_0:
  "leading_digits (cstring ''0'') = ''0''" "denoted (cstring ''0'') = 0"
  by (simp_all add: parse_defs)

theorem empty_directory_enforced:
  "connlimitDirectory (installation [] ''0'' 0) = Some [] \<and>
   enforce_limit (installation [] ''0'' 0) ''arolename'' start =
     Some (Fatal ERRCODE_TOO_MANY_CONNECTIONS (too_many ''arolename'')
             (start\<lparr>paths := [''/arolename'']\<rparr>))"
  by (simp add: installation_run parse_limit parse_0 installation_stages start_def)

section \<open>Where the code departs from its stated policy\<close>

subsection \<open>Content without digits\<close>

text \<open>
  Claim C1 says that content with no digits is a parse failure and admits.  In
  \<^verbatim>\<open>src/pg_connlimit.c\<close> the only test after \<^verbatim>\<open>strtol\<close> is \<^verbatim>\<open>errno != 0\<close>, and
  \<^verbatim>\<open>strtol\<close> reports "nothing converted" by returning 0, not through \<^verbatim>\<open>errno\<close>
  (unless the library is one that sets \<^verbatim>\<open>EINVAL\<close>).  So, with every earlier stage
  passed and no digits at the start of the bytes read, the limit is taken to be 0 and
  the connection is rejected at every live count; it is admitted only where
  \<^verbatim>\<open>strtol\<close> sets \<^verbatim>\<open>EINVAL\<close>.  The witness is the content \<^verbatim>\<open>abc\<close> with no live
  connection: rejected by \<^verbatim>\<open>src/pg_connlimit.c\<close>, admitted by \<^verbatim>\<open>part_000\<close>, whose
  \<^verbatim>\<open>fscanf(...) != 1\<close> sees the failure.
\<close>

theorem no_digits_rejected:
  assumes "connlimitDirectory ev = Some dir"
    and "OidIsValid (get_role_oid ev rolname)"
    and "isalphanum rolname"
    and "sys_open ev (dir @ ''/'' @ rolname) = replicate k (OpenErr EAGAIN) @ OpenFd content # rest"
    and "sys_read ev = replicate j (ReadErr EAGAIN) @ ReadData # rest'"
    and "sizeof_char_constant < int (maxlen ev)"
    and "leading_digits (cstring (take (maxlen ev - 4) content)) = []"
    and "0 \<le> CountUserBackends ev (get_role_oid ev rolname)"
  shows "enforce_limit ev rolname p =
           Some (if strtol_einval ev
                 then Return (p\<lparr>paths := paths p @ [dir @ ''/'' @ rolname]\<rparr>)
                 else Fatal ERRCODE_TOO_MANY_CONNECTIONS (too_many rolname)
                        (p\<lparr>paths := paths p @ [dir @ ''/'' @ rolname]\<rparr>))"
  using assms(7,8)
  by (simp add: enforce_limit_reads[OF assms(1-6)] parse_no_digits)

lemma parse_abc:
  "leading_digits (cstring ''abc'') = []" "leading_digits ''abc'' = []"
  by (simp_all add: parse_defs)

theorem no_digits_rejected_witness:
  "enforce_limit (installation ''/etc/connlimit'' ''abc'' 0) ''arolename'' start =
     Some (Fatal ERRCODE_TOO_MANY_CONNECTIONS (too_many ''arolename'')
             (start\<lparr>paths := [''/etc/connlimit/arolename'']\<rparr>)) \<and>
   enforce_limit_p0 (installation ''/etc/connlimit'' ''abc'' 0) ''arolename'' start =
     Some (Return (start\<lparr>paths := [''/etc/connlimit/arolename'']\<rparr>))"
proof -
  have "enforce_limit_p0 (installation ''/etc/connlimit'' ''abc'' 0) ''arolename'' start =
     Some (Return (start\<lparr>paths := [''/etc/connlimit/arolename'']\<rparr>))"
    by (simp add: enforce_limit_p0_def installation_def OidIsValid_def InvalidOid_def
        strspn_def strlen_def fscanf_d_def parse_abc start_def)
  then show ?thesis
    using no_digits_rejected[where ev = "installation ''/etc/connlimit'' ''abc'' 0"
      and dir = "''/etc/connlimit''" and rolname = "''arolename''" and k = 1 and j = 1
      and content = "''abc''" and rest = "[]" and rest' = "[]" and p = start,
      OF installation_stages(1) installation_stages(2) isalphanum_arolename
         installation_opens installation_reads installation_stages(3)]
    by (simp add: installation_stages parse_abc start_def)
qed

subsection \<open>Content longer than the buffer\<close>

text \<open>
  Claim C3 says that content longer than the buffer is refused unparsed.  The read asks
  for at most \<open>maxlen - 4\<close> bytes, so the test \<^verbatim>\<open>limitBuf.len == limitBuf.maxlen\<close>
  never holds: with every earlier stage passed, a file longer than the buffer has its
  first \<open>maxlen - 4\<close> bytes (a proper prefix) terminated, parsed and enforced.  The
  witness is a file of 2001 bytes, \<^verbatim>\<open>0\<close> followed by 2000 times \<^verbatim>\<open>x\<close>, with three
  live connections: rejected.
\<close>

theorem oversized_source_parsed:
  assumes "connlimitDirectory ev = Some dir"
    and "OidIsValid (get_role_oid ev rolname)"
    and "isalphanum rolname"
    and "sys_open ev (dir @ ''/'' @ rolname) = replicate k (OpenErr EAGAIN) @ OpenFd content # rest"
    and "sys_read ev = replicate j (ReadErr EAGAIN) @ ReadData # rest'"
    and "sizeof_char_constant < int (maxlen ev)"
    and "maxlen ev < length content"
  shows "enforce_limit ev rolname p =
           Some (parse_and_decide ev rolname (get_role_oid ev rolname) (errno p)
                   (take (maxlen ev - 4) content)
                   (p\<lparr>paths := paths p @ [dir @ ''/'' @ rolname], errno := 0\<rparr>)) \<and>
         length (take (maxlen ev - 4) content) < length content"
  using assms(7) by (simp add: enforce_limit_reads[OF assms(1-6)])

lemma parse_0_junk:
  "leading_digits (cstring (CHR ''0'' # replicate n CHR ''x'')) = ''0''"
  "denoted (cstring (CHR ''0'' # replicate n CHR ''x'')) = 0"
  by (simp_all add: parse_defs)

theorem oversized_source_parsed_witness:
  "length (CHR ''0'' # replicate 2000 CHR ''x'') = 2001 \<and>
   enforce_limit (installation ''/etc/connlimit'' (CHR ''0'' # replicate 2000 CHR ''x'') 3)
       ''arolename'' start =
     Some (Fatal ERRCODE_TOO_MANY_CONNECTIONS (too_many ''arolename'')
             (start\<lparr>paths := [''/etc/connlimit/arolename'']\<rparr>))"
  using oversized_source_parsed[where
      ev = "installation ''/etc/connlimit'' (CHR ''0'' # replicate 2000 CHR ''x'') 3"
      and dir = "''/etc/connlimit''" and rolname = "''arolename''" and k = 1 and j = 1
      and content = "CHR ''0'' # replicate 2000 CHR ''x''" and rest = "[]" and rest' = "[]"
      and p = start,
      OF installation_stages(1) installation_stages(2) isalphanum_arolename
         installation_opens installation_reads installation_stages(3)]
  by (simp add: installation_stages parse_limit parse_0_junk start_def)

subsection \<open>The earlier handler on the rejecting path\<close>

text \<open>
  Claim C5 says that the handler registered earlier runs exactly once at every
  invocation of the hook.  In \<^verbatim>\<open>src/pg_connlimit.c\<close> the check runs first, so when it
  ends the process the earlier handler has not run at all; it runs exactly once on
  every other path on which the hook gets that far.  In \<^verbatim>\<open>part_000\<close> the earlier
  handler runs first and so runs exactly once on every path.  The witness is a rejected
  attempt (limit 10, ten live connections): no invocation in \<^verbatim>\<open>src/pg_connlimit.c\<close>,
  one in \<^verbatim>\<open>part_000\<close>.
\<close>

theorem prev_hook_invocations:
  assumes "prev_ClientAuthentication_hook ev = Some prev"
  shows "(client_auth_hook ev port status p = Some (calls, out) \<longrightarrow>
            calls = (if status = STATUS_OK \<and>
                        (\<exists>code msg q. enforce_limit ev (user_name port) p
                                         = Some (Fatal code msg q))
                     then [] else [(port, status)])) \<and>
         (client_auth_hook_p0 ev port status p = Some (calls', out') \<longrightarrow>
            calls' = [(port, status)])"
proof
  show "client_auth_hook ev port status p = Some (calls, out) \<longrightarrow>
            calls = (if status = STATUS_OK \<and>
                        (\<exists>code msg q. enforce_limit ev (user_name port) p
                                         = Some (Fatal code msg q))
                     then [] else [(port, status)])"
    using assms
    by (auto simp add: client_auth_hook_def split: option.splits outcome.splits if_splits)
next
  show "client_auth_hook_p0 ev port status p = Some (calls', out') \<longrightarrow>
            calls' = [(port, status)]"
    using assms
    by (auto simp add: client_auth_hook_p0_def split: option.splits outcome.splits if_splits)
qed

theorem prev_hook_invocations_witness:
  "client_auth_hook (installation ''/etc/connlimit'' ''10'' 10)
       \<lparr>user_name = ''arolename''\<rparr> STATUS_OK start =
     Some ([], Fatal ERRCODE_TOO_MANY_CONNECTIONS (too_many ''arolename'')
                 (start\<lparr>paths := [''/etc/connlimit/arolename'']\<rparr>)) \<and>
   client_auth_hook_p0 (installation ''/etc/connlimit'' ''10'' 10)
       \<lparr>user_name = ''arolename''\<rparr> STATUS_OK start =
     Some ([(\<lparr>user_name = ''arolename''\<rparr>, STATUS_OK)],
           Fatal ERRCODE_TOO_MANY_CONNECTIONS (too_many ''arolename'')
                 (start\<lparr>paths := [''/etc/connlimit/arolename'']\<rparr>))"
proof -
  have run: "enforce_limit (installation ''/etc/connlimit'' ''10'' 10) ''arolename'' start =
      Some (Fatal ERRCODE_TOO_MANY_CONNECTIONS (too_many ''arolename'')
              (start\<lparr>paths := [''/etc/connlimit/arolename'']\<rparr>))"
    by (simp add: installation_run parse_limit parse_10 installation_stages start_def)
  have run0: "enforce_limit_p0 (installation ''/etc/connlimit'' ''10'' 10) ''arolename'' start =
      Some (Fatal ERRCODE_TOO_MANY_CONNECTIONS (too_many ''arolename'')
              (start\<lparr>paths := [''/etc/connlimit/arolename'']\<rparr>))"
    by (simp add: enforce_limit_p0_def installation_def OidIsValid_def InvalidOid_def
        strspn_def strlen_def fscanf_d_def stored_int_def parse_defs start_def INT_MAX_def)
  have prev: "prev_ClientAuthentication_hook (installation ''/etc/connlimit'' ''10'' 10)
      = Some (\<lambda>port status p. Return p)"
    by (simp add: installation_def)
  obtain calls out where b: "client_auth_hook (installation ''/etc/connlimit'' ''10'' 10)
       \<lparr>user_name = ''arolename''\<rparr> STATUS_OK start = Some (calls, out)"
    by (simp add: client_auth_hook_def run)
  obtain calls' out' where a: "client_auth_hook_p0 (installation ''/etc/connlimit'' ''10'' 10)
       \<lparr>user_name = ''arolename''\<rparr> STATUS_OK start = Some (calls', out')"
    by (simp add: client_auth_hook_p0_def run0 prev)
  from prev_hook_invocations[OF prev, of "\<lparr>user_name = ''arolename''\<rparr>" STATUS_OK start
      calls out calls' out'] a b
  have "calls = []" "calls' = [(\<lparr>user_name = ''arolename''\<rparr>, STATUS_OK)]"
    by (simp_all add: run)
  then show ?thesis
    using a b by (auto simp add: client_auth_hook_def client_auth_hook_p0_def run run0 prev)
qed

section \<open>The conversion in \<^verbatim>\<open>part_000\<close>\<close>

text \<open>A number that does not fit the \<^verbatim>\<open>int\<close> is enforced by its low 32 bits:
  \<^verbatim>\<open>4294967296\<close> acts as the limit 0.\<close>

lemma stored_int_low_bits:
  "stored_int (installation dir content live) 4294967296 = 0"
  by (simp add: stored_int_def installation_def INT_MAX_def)

lemma enforce_limit_p0_low_bits:
  "enforce_limit_p0 (installation ''/etc/connlimit'' ''4294967296'' 0) ''arolename'' start =
     Some (Fatal ERRCODE_TOO_MANY_CONNECTIONS (too_many ''arolename'')
             (start\<lparr>paths := [''/etc/connlimit/arolename'']\<rparr>))"
  by (simp add: enforce_limit_p0_def installation_def OidIsValid_def InvalidOid_def
      strspn_def strlen_def fscanf_d_def stored_int_def parse_defs start_def INT_MAX_def)

end
